theory Spec2Isabelle
  imports Complex_Main "HOL-Library.Word"
begin

section \<open>Data model of the tensor-network simulation state\<close>

text \<open>
  The development embeds \<^verbatim>\<open>runtime/nvqir/cutensornet/tn_simulation_state.cpp\<close>.
  Device pointers are addresses into an explicit device memory, so that two gate
  records holding the same pointer alias the same buffer. Amplitudes are values of
  \<^typ>\<open>complex\<close>; the rounding of \<^verbatim>\<open>std::complex<double>\<close> is not part of the model.
\<close>

type_synonym addr = nat

text \<open>One element of \<^verbatim>\<open>m_tensorOps\<close>, with the members the translation unit reads.\<close>

record AppliedTensorOp =
  deviceData :: addr
  targetQubitIds :: "int list"
  controlQubitIds :: "int list"
  isAdjoint :: bool
  isUnitary :: bool

record TensorNetState =
  numQubits :: nat
  m_tensorOps :: "AppliedTensorOp list"

record ScratchDeviceMem =
  d_scratch :: addr
  scratchSize :: "64 word"

text \<open>
  The manager. Its \<^verbatim>\<open>m_state\<close> is the owned network of a manager that has not been
  released by \<^verbatim>\<open>destroyState\<close>; the handle and the random engine it also borrows carry
  no data of their own.
\<close>

record TensorNetSimulationState =
  m_state :: TensorNetState
  m_contractedStateVec :: "complex list"
  scratchPad :: ScratchDeviceMem

text \<open>
  A \<^verbatim>\<open>cudaq::SimulationState\<close> is either a tensor-network state or a state of another
  representation, of which only the number of qubits is visible; the
  \<^verbatim>\<open>dynamic_cast\<close> of \<^verbatim>\<open>overlap\<close> is the case distinction on this type.
\<close>

datatype SimulationState =
    TensorNet TensorNetSimulationState
  | Foreign nat

datatype precision = fp32 | fp64

record Tensor =
  data :: addr
  extents :: "nat list"
  fp_precision :: precision

subsection \<open>The contraction backend and the device\<close>

text \<open>Every call the translation unit makes to the CUDA runtime, to cuTensorNet and to
  the two \<^verbatim>\<open>getStateVector\<close> methods of the network, with the arguments that vary.\<close>

datatype call =
    CudaMemcpyDeviceToHost addr nat
  | CudaMemcpyHostToDevice addr nat
  | CreateState nat
  | StateApplyTensorOperator "int list" addr bool bool
  | StateApplyControlledTensorOperator "int list" "int list" addr bool bool
  | CudaMalloc
  | CreateAccessor "int list"
  | AccessorConfigureNumHyperSamples int
  | CreateWorkspaceDescriptor
  | AccessorPrepare "64 word"
  | WorkspaceGetMemorySize
  | WorkspaceSetMemory addr "64 word"
  | AccessorCompute "int list"
  | CudaMemcpyOverlap
  | CudaFree
  | DestroyWorkspaceDescriptor
  | DestroyAccessor
  | DestroyState
  | GetStateVector
  | GetStateVectorProjected "int list" "int list"

text \<open>The temporaries \<^verbatim>\<open>overlap\<close> creates on the device.\<close>

datatype resource = TempQuantumState | DeviceScalar | Accessor | WorkspaceDescriptor

text \<open>
  The thrown values, one constructor for each \<^verbatim>\<open>throw\<close> of the file.
  \<open>BackendFailure\<close> is what \<^verbatim>\<open>HANDLE_CUDA_ERROR\<close>, \<^verbatim>\<open>HANDLE_CUTN_ERROR\<close> and the
  network's own methods raise when the named call does not succeed; \<open>AssertionFailed\<close>
  is a failed \<^verbatim>\<open>assert\<close>, and \<open>OutOfBoundsRead\<close> stands for a read of a
  \<^verbatim>\<open>std::vector\<close> past its end.
\<close>

datatype error =
    UnsupportedStateType
  | InsufficientWorkspace
  | InvalidNumberOfBits nat nat
  | InvalidBasisState
  | EmptyBasisState
  | InvalidTensorIndex
  | DimensionMismatch nat nat
  | BackendFailure call
  | AssertionFailed
  | OutOfBoundsRead

text \<open>The failure classes of the specification, and the class of each thrown value.\<close>

datatype error_class =
    InvalidArgument
  | OutOfRange
  | UnsupportedType
  | DimensionMismatchClass
  | ResourceExhausted
  | BackendFailureClass
  | Crash

fun error_class_of :: "error \<Rightarrow> error_class" where
  "error_class_of UnsupportedStateType = UnsupportedType"
| "error_class_of InsufficientWorkspace = ResourceExhausted"
| "error_class_of (InvalidNumberOfBits _ _) = InvalidArgument"
| "error_class_of InvalidBasisState = InvalidArgument"
| "error_class_of EmptyBasisState = InvalidArgument"
| "error_class_of InvalidTensorIndex = OutOfRange"
| "error_class_of (DimensionMismatch _ _) = DimensionMismatchClass"
| "error_class_of (BackendFailure _) = BackendFailureClass"
| "error_class_of AssertionFailed = Crash"
| "error_class_of OutOfBoundsRead = Crash"

definition fails_with :: "error_class \<Rightarrow> error + 'a \<Rightarrow> bool" where
  "fails_with k r = (case r of Inl e \<Rightarrow> error_class_of e = k | Inr _ \<Rightarrow> False)"

text \<open>
  The state outside the manager: the device buffers of the gate tensors, the device
  scalar that receives the overlap, the temporaries that are alive, and the calls made
  so far.
\<close>

record world =
  devmem :: "addr \<Rightarrow> complex list option"
  d_overlap :: complex
  live :: "resource list"
  trace :: "call list"

text \<open>
  The backend is a parameter: whether it accepts a call, the workspace size its plan
  reports (an \<^verbatim>\<open>int64_t\<close>), the amplitude its accessor computes and the vectors the network's
  \<^verbatim>\<open>getStateVector\<close> methods return, each as a function of the world at the call.
\<close>

record backend =
  accepts :: "world \<Rightarrow> call \<Rightarrow> bool"
  worksize :: "world \<Rightarrow> 64 word"
  amplitude :: "world \<Rightarrow> complex"
  stateVector :: "world \<Rightarrow> TensorNetState \<Rightarrow> complex list option"
  stateVectorProjected ::
    "world \<Rightarrow> TensorNetState \<Rightarrow> int list \<Rightarrow> int list \<Rightarrow> complex list option"

subsection \<open>Sequencing of calls that may throw\<close>

type_synonym 'a run = "world \<Rightarrow> (error + 'a) \<times> world"

definition ret :: "'a \<Rightarrow> 'a run" where
  "ret x w = (Inr x, w)"

definition throw :: "error \<Rightarrow> 'a run" where
  "throw e w = (Inl e, w)"

definition bnd :: "'a run \<Rightarrow> ('a \<Rightarrow> 'b run) \<Rightarrow> 'b run" where
  "bnd m f w = (case m w of (Inl e, w') \<Rightarrow> (Inl e, w') | (Inr x, w') \<Rightarrow> f x w')"

definition logged :: "call \<Rightarrow> world \<Rightarrow> world" where
  "logged c w = w\<lparr>trace := trace w @ [c]\<rparr>"

text \<open>A call wrapped in \<^verbatim>\<open>HANDLE_CUDA_ERROR\<close> or \<^verbatim>\<open>HANDLE_CUTN_ERROR\<close>: it is made, and a
  status other than success is thrown. \<open>eff\<close> is the call's effect when it succeeds.\<close>

definition handle :: "backend \<Rightarrow> call \<Rightarrow> (world \<Rightarrow> world) \<Rightarrow> unit run" where
  "handle be c eff w =
     (if accepts be w c then (Inr (), eff (logged c w))
      else (Inl (BackendFailure c), logged c w))"

definition acquire :: "resource \<Rightarrow> world \<Rightarrow> world" where
  "acquire r w = w\<lparr>live := r # live w\<rparr>"

definition release :: "resource \<Rightarrow> world \<Rightarrow> world" where
  "release r w = w\<lparr>live := remove1 r (live w)\<rparr>"

text \<open>\<^verbatim>\<open>cudaMemcpy\<close> of \<open>n\<close> elements from a gate buffer to the host; a pointer that is
  not a buffer of at least \<open>n\<close> elements is an error of the runtime.\<close>

definition cudaMemcpyDeviceToHost :: "backend \<Rightarrow> addr \<Rightarrow> nat \<Rightarrow> (complex list) run" where
  "cudaMemcpyDeviceToHost be a n w =
     (case devmem w a of
        None \<Rightarrow> (Inl (BackendFailure (CudaMemcpyDeviceToHost a n)),
                 logged (CudaMemcpyDeviceToHost a n) w)
      | Some buf \<Rightarrow>
          if n \<le> length buf \<and> accepts be w (CudaMemcpyDeviceToHost a n)
          then (Inr (take n buf), logged (CudaMemcpyDeviceToHost a n) w)
          else (Inl (BackendFailure (CudaMemcpyDeviceToHost a n)),
                logged (CudaMemcpyDeviceToHost a n) w))"

definition cudaMemcpyHostToDevice :: "backend \<Rightarrow> addr \<Rightarrow> complex list \<Rightarrow> unit run" where
  "cudaMemcpyHostToDevice be a mat w =
     (case devmem w a of
        None \<Rightarrow> (Inl (BackendFailure (CudaMemcpyHostToDevice a (length mat))),
                 logged (CudaMemcpyHostToDevice a (length mat)) w)
      | Some buf \<Rightarrow>
          if length mat \<le> length buf
             \<and> accepts be w (CudaMemcpyHostToDevice a (length mat))
          then (Inr (), (logged (CudaMemcpyHostToDevice a (length mat)) w)
                           \<lparr>devmem := (devmem w)(a \<mapsto> mat @ drop (length mat) buf)\<rparr>)
          else (Inl (BackendFailure (CudaMemcpyHostToDevice a (length mat))),
                logged (CudaMemcpyHostToDevice a (length mat)) w))"

section \<open>overlap\<close>

text \<open>\<^verbatim>\<open>Eigen::MatrixXcd::transposeInPlace\<close> on the flat storage of a \<open>dim \<times> dim\<close>
  matrix: the entry of row \<open>r\<close> and column \<open>c\<close>, stored at \<open>r + c * dim\<close>, receives the
  entry that was at \<open>c + r * dim\<close>.\<close>

definition transposeInPlace :: "nat \<Rightarrow> 'a list \<Rightarrow> 'a list" where
  "transposeInPlace dm mat =
     map (\<lambda>k. mat ! (k div dm + (k mod dm) * dm)) [0..<dm * dm]"

text \<open>
  The body of the loop over the copied bra-side records (lines 44 to 60): the flag is
  negated in the copy, and the data of a non-unitary record is read from the device,
  transposed on the host and written back through the same pointer. The shift
  \<^verbatim>\<open>1 << size\<close> is taken in the naturals: the source computes it in \<^verbatim>\<open>int\<close>, which
  agrees for fewer than 31 target qubits.
\<close>

definition conjugate_op :: "backend \<Rightarrow> AppliedTensorOp \<Rightarrow> AppliedTensorOp run" where
  "conjugate_op be op =
     (let op' = op\<lparr>isAdjoint := \<not> isAdjoint op\<rparr> in
      if \<not> isUnitary op' then
        (let dm = 2 ^ length (targetQubitIds op') in
         bnd (cudaMemcpyDeviceToHost be (deviceData op') (dm * dm)) (\<lambda>mat.
         bnd (cudaMemcpyHostToDevice be (deviceData op') (transposeInPlace dm mat)) (\<lambda>_.
         ret op')))
      else ret op')"

fun conjugate_ops :: "backend \<Rightarrow> AppliedTensorOp list \<Rightarrow> (AppliedTensorOp list) run" where
  "conjugate_ops be [] = ret []"
| "conjugate_ops be (op # ops) =
     bnd (conjugate_op be op) (\<lambda>op'.
     bnd (conjugate_ops be ops) (\<lambda>ops'.
     ret (op' # ops')))"

text \<open>The call that appends one record to the temporary network (lines 78 to 95).\<close>

definition apply_call :: "AppliedTensorOp \<Rightarrow> call" where
  "apply_call op =
     (if controlQubitIds op = []
      then StateApplyTensorOperator (targetQubitIds op) (deviceData op)
             (isAdjoint op) (isUnitary op)
      else StateApplyControlledTensorOperator (controlQubitIds op) (targetQubitIds op)
             (deviceData op) (isAdjoint op) (isUnitary op))"

fun apply_ops :: "backend \<Rightarrow> AppliedTensorOp list \<Rightarrow> unit run" where
  "apply_ops be [] = ret ()"
| "apply_ops be (op # ops) =
     bnd (handle be (apply_call op) id) (\<lambda>_. apply_ops be ops)"

definition getNumQubits :: "TensorNetSimulationState \<Rightarrow> nat" where
  "getNumQubits self = numQubits (m_state self)"

fun getNumQubits_of :: "SimulationState \<Rightarrow> nat" where
  "getNumQubits_of (TensorNet s) = getNumQubits s"
| "getNumQubits_of (Foreign n) = n"

text \<open>Lines 98 to 164: the accessor query on the temporary network. The workspace size
  is an \<^verbatim>\<open>int64_t\<close> and the size of the scratch pool a \<^verbatim>\<open>std::size_t\<close>; line 137 compares
  them as signed 64-bit values, the pool size after \<^verbatim>\<open>static_cast<int64_t>\<close>, so a pool of
  \<open>2 ^ 63\<close> bytes or more counts as negative.\<close>

definition query_zero_amplitude ::
    "backend \<Rightarrow> TensorNetSimulationState \<Rightarrow> nat \<Rightarrow> complex run" where
  "query_zero_amplitude be self nbQubits =
     (let projectedModes = map int [0..<nbQubits];
          projectedModeValues = replicate nbQubits (0::int);
          numHyperSamples = (8::int) in
      bnd (handle be CudaMalloc (acquire DeviceScalar)) (\<lambda>_.
      bnd (handle be (CreateAccessor projectedModes) (acquire Accessor)) (\<lambda>_.
      bnd (handle be (AccessorConfigureNumHyperSamples numHyperSamples) id) (\<lambda>_.
      bnd (handle be CreateWorkspaceDescriptor (acquire WorkspaceDescriptor)) (\<lambda>_.
      bnd (handle be (AccessorPrepare (scratchSize (scratchPad self))) id) (\<lambda>_.
      bnd (handle be WorkspaceGetMemorySize id) (\<lambda>_.
      bnd (\<lambda>w. (Inr (worksize be w), w)) (\<lambda>ws.
      bnd (if sint ws \<le> sint (scratchSize (scratchPad self))
           then handle be (WorkspaceSetMemory (d_scratch (scratchPad self)) ws) id
           else throw InsufficientWorkspace) (\<lambda>_.
      bnd (\<lambda>w. handle be (AccessorCompute projectedModeValues)
                 (\<lambda>w'. w'\<lparr>d_overlap := amplitude be w\<rparr>) w) (\<lambda>_.
      bnd (handle be CudaMemcpyOverlap id) (\<lambda>_.
      bnd (\<lambda>w. (Inr (d_overlap w), w)) (\<lambda>h_overlap.
      bnd (handle be CudaFree (release DeviceScalar)) (\<lambda>_.
      bnd (handle be DestroyWorkspaceDescriptor (release WorkspaceDescriptor)) (\<lambda>_.
      bnd (handle be DestroyAccessor (release Accessor)) (\<lambda>_.
      bnd (handle be DestroyState (release TempQuantumState)) (\<lambda>_.
      ret (complex_of_real (cmod h_overlap))))))))))))))))))"

definition overlap ::
    "backend \<Rightarrow> TensorNetSimulationState \<Rightarrow> SimulationState \<Rightarrow> complex run" where
  "overlap be self other =
     (case other of
        Foreign _ \<Rightarrow> throw UnsupportedStateType
      | TensorNet tnOther \<Rightarrow>
          bnd (conjugate_ops be (rev (m_tensorOps (m_state tnOther)))) (\<lambda>tensorOps.
          (let nbQubits = max (getNumQubits self) (getNumQubits_of other);
               allTensorOps = m_tensorOps (m_state self) @ tensorOps in
           bnd (handle be (CreateState nbQubits) (acquire TempQuantumState)) (\<lambda>_.
           bnd (apply_ops be allTensorOps) (\<lambda>_.
           query_zero_amplitude be self nbQubits)))))"

section \<open>getAmplitude\<close>

text \<open>The two \<^verbatim>\<open>getStateVector\<close> methods of the network are not part of this
  translation unit: each is a logged query whose answer the backend supplies, and a
  query the backend does not answer throws.\<close>

definition getStateVector :: "backend \<Rightarrow> TensorNetState \<Rightarrow> (complex list) run" where
  "getStateVector be st w =
     (case stateVector be w st of
        None \<Rightarrow> (Inl (BackendFailure GetStateVector), logged GetStateVector w)
      | Some vec \<Rightarrow> (Inr vec, logged GetStateVector w))"

definition getStateVectorProjected ::
    "backend \<Rightarrow> TensorNetState \<Rightarrow> int list \<Rightarrow> int list \<Rightarrow> (complex list) run" where
  "getStateVectorProjected be st projectedModes projectedModeValues w =
     (case stateVectorProjected be w st projectedModes projectedModeValues of
        None \<Rightarrow> (Inl (BackendFailure
                     (GetStateVectorProjected projectedModes projectedModeValues)),
                 logged (GetStateVectorProjected projectedModes projectedModeValues) w)
      | Some vec \<Rightarrow>
          (Inr vec, logged (GetStateVectorProjected projectedModes projectedModeValues) w))"

text \<open>Lines 189 to 192: \<^verbatim>\<open>std::accumulate\<close> over the reversed assignment, in
  \<^verbatim>\<open>std::size_t\<close>, a 64-bit unsigned integer.\<close>

definition basis_index :: "int list \<Rightarrow> 64 word" where
  "basis_index basisState =
     foldl (\<lambda>acc bit. push_bit 1 acc + word_of_int bit) 0 (rev basisState)"

text \<open>Lines 188 to 193, on the manager whose cache is filled: the assertion on the
  size of the cache, the index and the read.\<close>

definition read_cached ::
    "TensorNetSimulationState \<Rightarrow> int list \<Rightarrow> error + complex" where
  "read_cached self basisState =
     (if (word_of_nat (length (m_contractedStateVec self)) :: 64 word)
           \<noteq> push_bit (numQubits (m_state self)) 1
      then Inl AssertionFailed
      else (let idx = unat (basis_index basisState) in
            if idx < length (m_contractedStateVec self)
            then Inr (m_contractedStateVec self ! idx)
            else Inl OutOfBoundsRead))"

text \<open>\<^verbatim>\<open>getAmplitude\<close> changes the manager (its cache) and the world (the queries
  made); \<open>g_max\<close> is the constant \<^verbatim>\<open>g_maxQubitsForStateContraction\<close>, which the
  translation unit takes from a header.\<close>

definition getAmplitude ::
    "nat \<Rightarrow> backend \<Rightarrow> TensorNetSimulationState \<Rightarrow> int list \<Rightarrow> world
      \<Rightarrow> (error + complex) \<times> TensorNetSimulationState \<times> world" where
  "getAmplitude g_max be self basisState w =
     (if getNumQubits self \<noteq> length basisState
      then (Inl (InvalidNumberOfBits (getNumQubits self) (length basisState)), self, w)
      else if list_ex (\<lambda>x. x \<noteq> 0 \<and> x \<noteq> 1) basisState
      then (Inl InvalidBasisState, self, w)
      else if basisState = []
      then (Inl EmptyBasisState, self, w)
      else if numQubits (m_state self) \<le> g_max
      then (if m_contractedStateVec self = []
            then (case getStateVector be (m_state self) w of
                    (Inl e, w') \<Rightarrow> (Inl e, self, w')
                  | (Inr vec, w') \<Rightarrow>
                      (read_cached (self\<lparr>m_contractedStateVec := vec\<rparr>) basisState,
                       self\<lparr>m_contractedStateVec := vec\<rparr>, w'))
            else (read_cached self basisState, self, w))
      else (case getStateVectorProjected be (m_state self)
                   (map int [0..<numQubits (m_state self)]) basisState w of
              (Inl e, w') \<Rightarrow> (Inl e, self, w')
            | (Inr subStateVec, w') \<Rightarrow>
                if length subStateVec \<noteq> 1 then (Inl AssertionFailed, self, w')
                else (Inr (subStateVec ! 0), self, w')))"


section \<open>getTensor and toHost\<close>

definition getNumTensors :: "TensorNetSimulationState \<Rightarrow> nat" where
  "getNumTensors self = length (m_tensorOps (m_state self))"

text \<open>\<open>prec\<close> is the value of \<^verbatim>\<open>getPrecision()\<close>, defined in the class's header.\<close>

definition getTensor ::
    "precision \<Rightarrow> TensorNetSimulationState \<Rightarrow> nat \<Rightarrow> error + Tensor" where
  "getTensor prec self tensorIdx =
     (if tensorIdx \<ge> getNumTensors self then Inl InvalidTensorIndex
      else (let opTensor = m_tensorOps (m_state self) ! tensorIdx in
            Inr \<lparr>data = deviceData opTensor,
                 extents = replicate (2 * length (targetQubitIds opTensor)) 2,
                 fp_precision = prec\<rparr>))"

text \<open>The copy loop of \<^verbatim>\<open>toHost\<close> (lines 270 and 271) on the caller's buffer.\<close>

definition copy_to_client :: "complex list \<Rightarrow> nat \<Rightarrow> complex list \<Rightarrow> complex list" where
  "copy_to_client stateVec numElements clientAllocatedData =
     fold (\<lambda>i buf. buf[i := stateVec ! i]) [0..<numElements] clientAllocatedData"

text \<open>\<^verbatim>\<open>toHost\<close> is a \<^verbatim>\<open>const\<close> method: it returns the caller's buffer and the world,
  and has no manager to return.\<close>

definition toHost ::
    "backend \<Rightarrow> TensorNetSimulationState \<Rightarrow> complex list \<Rightarrow> nat \<Rightarrow> (complex list) run" where
  "toHost be self clientAllocatedData numElements =
     bnd (getStateVector be (m_state self)) (\<lambda>stateVec.
     if length stateVec \<noteq> numElements
     then throw (DimensionMismatch (length stateVec) numElements)
     else ret (copy_to_client stateVec numElements clientAllocatedData))"

section \<open>Notions of the specification\<close>

text \<open>
  What the conjugation of the bra-side records does on the device, said without the
  functions above: for a non-unitary record on \<open>n\<close> target qubits, one copy of
  \<open>4 ^ n\<close> entries to the host and one back, after which entry \<open>r + c * 2 ^ n\<close> of the
  buffer holds what entry \<open>c + r * 2 ^ n\<close> held; the copies need a buffer of at least
  \<open>4 ^ n\<close> entries behind the pointer.
\<close>

definition transpose_calls :: "AppliedTensorOp list \<Rightarrow> call list" where
  "transpose_calls ops =
     concat (map (\<lambda>op. if isUnitary op then []
                        else [CudaMemcpyDeviceToHost (deviceData op)
                                (4 ^ length (targetQubitIds op)),
                              CudaMemcpyHostToDevice (deviceData op)
                                (4 ^ length (targetQubitIds op))]) ops)"

definition transposed_data ::
    "AppliedTensorOp \<Rightarrow> (addr \<Rightarrow> complex list option) \<Rightarrow> (addr \<Rightarrow> complex list option)" where
  "transposed_data op mem =
     (if isUnitary op then mem
      else (case mem (deviceData op) of
              None \<Rightarrow> mem
            | Some buf \<Rightarrow>
                mem(deviceData op \<mapsto>
                  map (\<lambda>k. buf ! (k div 2 ^ length (targetQubitIds op)
                                   + (k mod 2 ^ length (targetQubitIds op))
                                     * 2 ^ length (targetQubitIds op)))
                    [0..<4 ^ length (targetQubitIds op)]
                  @ drop (4 ^ length (targetQubitIds op)) buf)))"

definition readable :: "(addr \<Rightarrow> complex list option) \<Rightarrow> AppliedTensorOp \<Rightarrow> bool" where
  "readable mem op =
     (case mem (deviceData op) of
        None \<Rightarrow> False
      | Some buf \<Rightarrow> 4 ^ length (targetQubitIds op) \<le> length buf)"

definition never_invalid_argument :: "'a run \<Rightarrow> bool" where
  "never_invalid_argument m = (\<forall>w. \<not> fails_with InvalidArgument (fst (m w)))"

text \<open>The little-endian value of an assignment: qubit 0 is the least significant
  bit.\<close>

definition little_endian :: "int list \<Rightarrow> nat" where
  "little_endian b = (\<Sum>i<length b. nat (b ! i) * 2 ^ i)"

section \<open>Concrete states used below\<close>

definition accepting_backend :: "64 word \<Rightarrow> complex \<Rightarrow> complex list \<Rightarrow> backend" where
  "accepting_backend ws amp vec =
     \<lparr>accepts = (\<lambda>_ _. True), worksize = (\<lambda>_. ws), amplitude = (\<lambda>_. amp),
      stateVector = (\<lambda>_ _. Some vec), stateVectorProjected = (\<lambda>_ _ _ _. Some [amp])\<rparr>"

definition mk_state ::
    "nat \<Rightarrow> AppliedTensorOp list \<Rightarrow> 64 word \<Rightarrow> TensorNetSimulationState" where
  "mk_state n ops sz =
     \<lparr>m_state = \<lparr>numQubits = n, m_tensorOps = ops\<rparr>, m_contractedStateVec = [],
      scratchPad = \<lparr>d_scratch = 100, scratchSize = sz\<rparr>\<rparr>"

definition projector_op :: AppliedTensorOp where
  "projector_op =
     \<lparr>deviceData = 0, targetQubitIds = [0], controlQubitIds = [],
      isAdjoint = False, isUnitary = False\<rparr>"

definition cnot_op :: AppliedTensorOp where
  "cnot_op =
     \<lparr>deviceData = 1, targetQubitIds = [1], controlQubitIds = [0],
      isAdjoint = False, isUnitary = True\<rparr>"

definition world0 :: world where
  "world0 = \<lparr>devmem = [0 \<mapsto> [1, 2, 3, 4]], d_overlap = 0, live = [], trace = []\<rparr>"

section \<open>Facts about the sequencing\<close>

lemmas run_defs = bnd_def ret_def throw_def handle_def logged_def acquire_def release_def
  cudaMemcpyDeviceToHost_def cudaMemcpyHostToDevice_def

lemma transposeInPlace_2: "transposeInPlace 2 [a, b, c, d] = [a, c, b, d]"
  by (simp add: transposeInPlace_def upt_conv_Cons)

lemma transposed_index_bound:
  fixes k d :: nat
  assumes "k < d * d"
  shows "k div d + (k mod d) * d < d * d"
proof -
  from assms have d: "0 < d" by (cases d) simp_all
  have q: "k div d < d"
    using assms d by (simp add: less_mult_imp_div_less)
  have "k mod d < d"
    using d by simp
  then have "Suc (k mod d) \<le> d" by simp
  then have "Suc (k mod d) * d \<le> d * d"
    by (rule mult_le_mono1)
  then have "(k mod d) * d + d \<le> d * d" by simp
  with q show ?thesis by linarith
qed

lemma replicate_2: "replicate 2 x = [x, x]"
  by (simp add: numeral_2_eq_2)

lemma four_pow: "(2::nat) ^ n * 2 ^ n = 4 ^ n"
  by (simp add: power_mult_distrib [symmetric])

lemma transposeInPlace_take:
  assumes "d * d \<le> length buf"
  shows "transposeInPlace d (take (d * d) buf)
           = map (\<lambda>k. buf ! (k div d + (k mod d) * d)) [0..<d * d]"
  unfolding transposeInPlace_def
  by (rule map_cong) (simp_all add: transposed_index_bound)

lemma conjugate_op_accepting:
  assumes acc: "\<forall>w c. accepts be w c"
    and rd: "\<not> isUnitary op \<longrightarrow> readable (devmem w) op"
  shows "conjugate_op be op w
           = (Inr (op\<lparr>isAdjoint := \<not> isAdjoint op\<rparr>),
              w\<lparr>devmem := transposed_data op (devmem w),
                trace := trace w @ transpose_calls [op]\<rparr>)"
proof (cases "isUnitary op")
  case True
  then show ?thesis
    by (simp add: conjugate_op_def transposed_data_def transpose_calls_def ret_def)
next
  case False
  with rd obtain buf where buf: "devmem w (deviceData op) = Some buf"
      and len: "4 ^ length (targetQubitIds op) \<le> length buf"
    by (auto simp: readable_def split: option.splits)
  let ?d = "(2::nat) ^ length (targetQubitIds op)"
  have len': "?d * ?d \<le> length buf"
    using len by (simp add: four_pow)
  let ?n = "(4::nat) ^ length (targetQubitIds op)"
  have tr: "transposeInPlace ?d (take ?n buf)
              = map (\<lambda>k. buf ! (k div ?d + (k mod ?d) * ?d)) [0..<?n]"
    using transposeInPlace_take [OF len'] by (simp add: four_pow)
  have d2h: "cudaMemcpyDeviceToHost be (deviceData op) ?n w
               = (Inr (take ?n buf),
                  logged (CudaMemcpyDeviceToHost (deviceData op) ?n) w)"
    using acc buf len by (simp add: cudaMemcpyDeviceToHost_def)
  show ?thesis
    using False acc buf len
    by (simp add: conjugate_op_def Let_def bnd_def ret_def d2h tr
        cudaMemcpyHostToDevice_def logged_def transposed_data_def transpose_calls_def
        four_pow)
qed

lemma length_transposed_data:
  assumes "\<not> isUnitary op \<longrightarrow> readable mem op"
  shows "map_option length (transposed_data op mem a) = map_option length (mem a)"
  using assms
  by (auto simp: transposed_data_def readable_def split: option.splits)

lemma readable_transposed_data:
  assumes "\<not> isUnitary op \<longrightarrow> readable mem op"
  shows "readable (transposed_data op mem) op' = readable mem op'"
proof -
  have "map_option length (transposed_data op mem (deviceData op'))
          = map_option length (mem (deviceData op'))"
    by (rule length_transposed_data [OF assms])
  then show ?thesis
    by (auto simp: readable_def split: option.splits)
qed

lemma transpose_calls_Cons:
  "transpose_calls (op # ops) = transpose_calls [op] @ transpose_calls ops"
  by (simp add: transpose_calls_def)

lemma conjugate_ops_accepting:
  assumes acc: "\<forall>w c. accepts be w c"
  shows "\<forall>op\<in>set ops. \<not> isUnitary op \<longrightarrow> readable (devmem w) op \<Longrightarrow>
     conjugate_ops be ops w
       = (Inr (map (\<lambda>op. op\<lparr>isAdjoint := \<not> isAdjoint op\<rparr>) ops),
          w\<lparr>devmem := fold transposed_data ops (devmem w),
            trace := trace w @ transpose_calls ops\<rparr>)"
proof (induction ops arbitrary: w)
  case Nil
  then show ?case by (simp add: ret_def transpose_calls_def)
next
  case (Cons op ops)
  let ?w1 = "w\<lparr>devmem := transposed_data op (devmem w),
                trace := trace w @ transpose_calls [op]\<rparr>"
  from Cons.prems have rd: "\<not> isUnitary op \<longrightarrow> readable (devmem w) op" by simp
  have s1: "conjugate_op be op w = (Inr (op\<lparr>isAdjoint := \<not> isAdjoint op\<rparr>), ?w1)"
    by (rule conjugate_op_accepting [OF acc rd])
  have "\<forall>op'\<in>set ops. \<not> isUnitary op' \<longrightarrow> readable (devmem ?w1) op'"
    using Cons.prems by (simp add: readable_transposed_data [OF rd])
  from Cons.IH [OF this]
  have s2: "conjugate_ops be ops ?w1
       = (Inr (map (\<lambda>op. op\<lparr>isAdjoint := \<not> isAdjoint op\<rparr>) ops),
          ?w1\<lparr>devmem := fold transposed_data ops (devmem ?w1),
              trace := trace ?w1 @ transpose_calls ops\<rparr>)" .
  show ?case
    by (simp add: s1 s2 bnd_def ret_def transpose_calls_Cons [of op ops])
qed

lemma apply_ops_accepting:
  assumes acc: "\<forall>w c. accepts be w c"
  shows "apply_ops be ops w = (Inr (), w\<lparr>trace := trace w @ map apply_call ops\<rparr>)"
proof (induction ops arbitrary: w)
  case Nil
  then show ?case by (simp add: ret_def)
next
  case (Cons op ops)
  show ?case
    using acc by (simp add: Cons.IH bnd_def handle_def logged_def)
qed

lemma apply_call_eq:
  "apply_call =
     (\<lambda>op. if controlQubitIds op = []
           then StateApplyTensorOperator (targetQubitIds op) (deviceData op)
                  (isAdjoint op) (isUnitary op)
           else StateApplyControlledTensorOperator (controlQubitIds op) (targetQubitIds op)
                  (deviceData op) (isAdjoint op) (isUnitary op))"
  by (simp add: fun_eq_iff apply_call_def)

lemma query_zero_amplitude_accepting:
  assumes acc: "\<forall>w c. accepts be w c"
    and fits: "\<forall>w. sint (worksize be w) \<le> sint (scratchSize (scratchPad self))"
  shows "query_zero_amplitude be self nb w =
     (let wp = w\<lparr>live := WorkspaceDescriptor # Accessor # DeviceScalar # live w,
                 trace := trace w @
                   [CudaMalloc, CreateAccessor (map int [0..<nb]),
                    AccessorConfigureNumHyperSamples 8, CreateWorkspaceDescriptor,
                    AccessorPrepare (scratchSize (scratchPad self)),
                    WorkspaceGetMemorySize]\<rparr>;
          wq = wp\<lparr>trace := trace wp @
                   [WorkspaceSetMemory (d_scratch (scratchPad self)) (worksize be wp)]\<rparr>
      in (Inr (complex_of_real (cmod (amplitude be wq))),
          wq\<lparr>d_overlap := amplitude be wq,
             live := remove1 TempQuantumState (live w),
             trace := trace wq @
               [AccessorCompute (replicate nb 0), CudaMemcpyOverlap, CudaFree,
                DestroyWorkspaceDescriptor, DestroyAccessor, DestroyState]\<rparr>))"
  using acc fits
  by (simp add: query_zero_amplitude_def run_defs Let_def)

lemma overlap_accepting:
  assumes acc: "\<forall>w c. accepts be w c"
    and fits: "\<forall>w. sint (worksize be w) \<le> sint (scratchSize (scratchPad self))"
    and rd: "\<forall>op\<in>set (m_tensorOps (m_state tnOther)).
               \<not> isUnitary op \<longrightarrow> readable (devmem w) op"
  shows "overlap be self (TensorNet tnOther) w =
     (let nb = max (getNumQubits self) (getNumQubits tnOther);
          w1 = w\<lparr>devmem := fold transposed_data (rev (m_tensorOps (m_state tnOther)))
                              (devmem w),
                 trace := trace w @ transpose_calls (rev (m_tensorOps (m_state tnOther)))\<rparr>;
          wp = w1\<lparr>live := WorkspaceDescriptor # Accessor # DeviceScalar
                            # TempQuantumState # live w,
                  trace := trace w1
                    @ CreateState nb
                    # map apply_call
                        (m_tensorOps (m_state self)
                         @ map (\<lambda>op. op\<lparr>isAdjoint := \<not> isAdjoint op\<rparr>)
                             (rev (m_tensorOps (m_state tnOther))))
                    @ [CudaMalloc, CreateAccessor (map int [0..<nb]),
                       AccessorConfigureNumHyperSamples 8, CreateWorkspaceDescriptor,
                       AccessorPrepare (scratchSize (scratchPad self)),
                       WorkspaceGetMemorySize]\<rparr>;
          wq = wp\<lparr>trace := trace wp @
                   [WorkspaceSetMemory (d_scratch (scratchPad self)) (worksize be wp)]\<rparr>
      in (Inr (complex_of_real (cmod (amplitude be wq))),
          wq\<lparr>d_overlap := amplitude be wq, live := live w,
             trace := trace wq @
               [AccessorCompute (replicate nb 0), CudaMemcpyOverlap, CudaFree,
                DestroyWorkspaceDescriptor, DestroyAccessor, DestroyState]\<rparr>))"
proof -
  have "\<forall>op\<in>set (rev (m_tensorOps (m_state tnOther))).
          \<not> isUnitary op \<longrightarrow> readable (devmem w) op"
    using rd by simp
  note s1 = conjugate_ops_accepting [OF acc this]
  show ?thesis
    using acc
    by (simp add: overlap_def bnd_def handle_def s1 apply_ops_accepting [OF acc]
        query_zero_amplitude_accepting [OF acc fits] Let_def logged_def acquire_def)
qed

subsection \<open>The errors overlap can raise\<close>

lemma nia_ret: "never_invalid_argument (ret x)"
  by (simp add: never_invalid_argument_def ret_def fails_with_def)

lemma nia_throw: "error_class_of e \<noteq> InvalidArgument \<Longrightarrow> never_invalid_argument (throw e)"
  by (simp add: never_invalid_argument_def throw_def fails_with_def)

lemma nia_handle: "never_invalid_argument (handle be c eff)"
  by (simp add: never_invalid_argument_def handle_def fails_with_def)

lemma nia_handle_at: "never_invalid_argument (\<lambda>w. handle be c (eff w) w)"
  by (simp add: never_invalid_argument_def handle_def fails_with_def)

lemma nia_read: "never_invalid_argument (\<lambda>w. (Inr (f w), w))"
  by (simp add: never_invalid_argument_def fails_with_def)

lemma nia_bnd:
  assumes "never_invalid_argument m" and "\<And>x. never_invalid_argument (f x)"
  shows "never_invalid_argument (bnd m f)"
  unfolding never_invalid_argument_def
proof
  fix w
  show "\<not> fails_with InvalidArgument (fst (bnd m f w))"
  proof (cases "m w")
    case (Pair r w')
    show ?thesis
    proof (cases r)
      case (Inl e)
      with Pair assms(1) show ?thesis
        by (auto simp: bnd_def never_invalid_argument_def fails_with_def dest: spec [of _ w])
    next
      case (Inr x)
      with Pair assms(2) [of x] show ?thesis
        by (simp add: bnd_def never_invalid_argument_def)
    qed
  qed
qed

lemma nia_d2h: "never_invalid_argument (cudaMemcpyDeviceToHost be a n)"
  by (simp add: never_invalid_argument_def cudaMemcpyDeviceToHost_def fails_with_def
      logged_def split: option.splits)

lemma nia_h2d: "never_invalid_argument (cudaMemcpyHostToDevice be a mat)"
  by (simp add: never_invalid_argument_def cudaMemcpyHostToDevice_def fails_with_def
      logged_def split: option.splits)

lemma nia_conjugate_op: "never_invalid_argument (conjugate_op be op)"
  by (simp add: conjugate_op_def Let_def nia_bnd nia_d2h nia_h2d nia_ret)

lemma nia_conjugate_ops: "never_invalid_argument (conjugate_ops be ops)"
  by (induction ops) (simp_all add: nia_bnd nia_conjugate_op nia_ret)

lemma nia_apply_ops: "never_invalid_argument (apply_ops be ops)"
  by (induction ops) (simp_all add: nia_bnd nia_handle nia_ret)

lemma nia_query: "never_invalid_argument (query_zero_amplitude be self nb)"
  unfolding query_zero_amplitude_def Let_def
  by (intro nia_bnd nia_handle nia_ret nia_read) (simp_all add: nia_handle nia_handle_at nia_throw)

lemma nia_overlap: "never_invalid_argument (overlap be self other)"
proof (cases other)
  case (TensorNet t)
  show ?thesis
    unfolding overlap_def TensorNet SimulationState.case Let_def
    by (intro nia_bnd nia_conjugate_ops nia_handle nia_apply_ops nia_query)
next
  case (Foreign n)
  then show ?thesis
    by (simp add: overlap_def nia_throw)
qed

section \<open>Facts about the index and the copy loop\<close>

lemma little_endian_Cons: "little_endian (x # xs) = nat x + 2 * little_endian xs"
  unfolding little_endian_def
  by (simp only: length_Cons sum.lessThan_Suc_shift)
     (simp add: sum_distrib_left ac_simps)

lemma little_endian_Nil: "little_endian [] = 0"
  by (simp add: little_endian_def)

lemma little_endian_bound:
  "\<forall>x\<in>set b. x = 0 \<or> x = 1 \<Longrightarrow> little_endian b < 2 ^ length b"
proof (induction b)
  case Nil
  then show ?case by (simp add: little_endian_Nil)
next
  case (Cons x xs)
  then have "little_endian xs < 2 ^ length xs" and "nat x \<le> 1"
    by auto
  then show ?case
    by (simp add: little_endian_Cons)
qed

lemma basis_index_Cons:
  "basis_index (x # xs) = push_bit 1 (basis_index xs) + word_of_int x"
  by (simp add: basis_index_def)

lemma basis_index_little_endian:
  "\<forall>x\<in>set b. x = 0 \<or> x = 1 \<Longrightarrow> basis_index b = word_of_nat (little_endian b)"
proof (induction b)
  case Nil
  then show ?case by (simp add: basis_index_def little_endian_Nil)
next
  case (Cons x xs)
  then have ih: "basis_index xs = word_of_nat (little_endian xs)" and x: "x = 0 \<or> x = 1"
    by auto
  from x have "(word_of_int x :: 64 word) = word_of_nat (nat x)"
    by auto
  then show ?case
    by (simp add: basis_index_Cons ih little_endian_Cons push_bit_eq_mult)
qed

lemma unat_basis_index:
  assumes "\<forall>x\<in>set b. x = 0 \<or> x = 1" and "length b \<le> 64"
  shows "unat (basis_index b) = little_endian b"
proof -
  have "little_endian b < 2 ^ length b"
    by (rule little_endian_bound [OF assms(1)])
  also have "(2::nat) ^ length b \<le> 2 ^ 64"
    using assms(2) power_increasing [of "length b" 64 "2::nat"] by simp
  finally have "little_endian b < 2 ^ LENGTH(64)" by simp
  then show ?thesis
    by (simp add: basis_index_little_endian [OF assms(1)] unat_of_nat)
qed

lemma read_cached_ok:
  assumes bits: "\<forall>x\<in>set b. x = 0 \<or> x = 1"
    and len: "length b = numQubits (m_state self)"
    and n: "numQubits (m_state self) < 64"
    and sz: "length (m_contractedStateVec self) = 2 ^ numQubits (m_state self)"
  shows "read_cached self b = Inr (m_contractedStateVec self ! little_endian b)"
proof -
  have idx: "unat (basis_index b) = little_endian b"
    using unat_basis_index [OF bits] len n by simp
  have lt: "little_endian b < 2 ^ numQubits (m_state self)"
    using little_endian_bound [OF bits] len by simp
  have "(word_of_nat (2 ^ numQubits (m_state self)) :: 64 word) = push_bit (numQubits (m_state self)) 1"
    by (simp add: push_bit_eq_mult)
  then show ?thesis
    using idx lt sz by (simp add: read_cached_def Let_def)
qed



lemma copy_to_client_prefix:
  "k \<le> length buf \<Longrightarrow> k \<le> length vec \<Longrightarrow>
     fold (\<lambda>i b. b[i := vec ! i]) [0..<k] buf = take k vec @ drop k buf"
proof (induction k)
  case 0
  then show ?case by simp
next
  case (Suc k)
  then have ih: "fold (\<lambda>i b. b[i := vec ! i]) [0..<k] buf = take k vec @ drop k buf"
    by simp
  from Suc.prems have "drop k buf = buf ! k # drop (Suc k) buf"
    by (simp add: Cons_nth_drop_Suc)
  then have "(take k vec @ drop k buf)[k := vec ! k] = take k vec @ vec ! k # drop (Suc k) buf"
    using Suc.prems by (simp add: list_update_append)
  also have "\<dots> = take (Suc k) vec @ drop (Suc k) buf"
    using Suc.prems by (simp add: take_Suc_conv_app_nth)
  finally show ?case
    by (simp add: ih)
qed

lemma copy_to_client_all:
  "length buf = n \<Longrightarrow> length vec = n \<Longrightarrow> copy_to_client vec n buf = vec"
  by (simp add: copy_to_client_def copy_to_client_prefix)

section \<open>overlap: what happens to the operands and to the temporaries\<close>

text \<open>
  C1. The claim is that a successful \<open>overlap\<close> leaves the device data behind every
  record of \<open>self\<close> and \<open>other\<close> as it was. The code copies the list of records of
  \<open>other\<close>, but each copy keeps the pointer of the original, and the transposition of a
  non-unitary record is written back through it. Here \<open>other\<close> has one projector on
  qubit 0 whose buffer holds \<open>[1, 2, 3, 4]\<close>: the call succeeds, and afterwards the
  buffer that \<open>other\<close> still refers to holds \<open>[1, 3, 2, 4]\<close>.
\<close>

theorem overlap_transposes_data_of_other:
  "fst (overlap (accepting_backend 0 1 []) (mk_state 1 [] 16)
          (TensorNet (mk_state 1 [projector_op] 16)) world0) = Inr 1
   \<and> devmem world0 (deviceData projector_op) = Some [1, 2, 3, 4]
   \<and> devmem (snd (overlap (accepting_backend 0 1 []) (mk_state 1 [] 16)
                     (TensorNet (mk_state 1 [projector_op] 16)) world0))
        (deviceData projector_op) = Some [1, 3, 2, 4]"
  by (simp add: overlap_def query_zero_amplitude_def conjugate_op_def run_defs
      accepting_backend_def mk_state_def projector_op_def world0_def getNumQubits_def
      apply_call_def transposeInPlace_2 Let_def)

text \<open>
  C2. The claim is that every exit of \<open>overlap\<close> releases the device scalar, the
  workspace descriptor, the accessor and the temporary network. When the plan asks for
  32 bytes of workspace and the scratch pool has 16, the call throws at line 142, and
  all four temporaries are still alive: the four releasing calls stand only at the end
  of the successful path.
\<close>

theorem overlap_insufficient_workspace_leaks:
  "fst (overlap (accepting_backend 32 1 []) (mk_state 1 [] 16)
          (TensorNet (mk_state 1 [] 16)) world0) = Inl InsufficientWorkspace
   \<and> live world0 = []
   \<and> live (snd (overlap (accepting_backend 32 1 []) (mk_state 1 [] 16)
                   (TensorNet (mk_state 1 [] 16)) world0))
       = [WorkspaceDescriptor, Accessor, DeviceScalar, TempQuantumState]"
  by (simp add: overlap_def query_zero_amplitude_def run_defs accepting_backend_def
      mk_state_def world0_def getNumQubits_def Let_def)

section \<open>overlap: the qubit counts and the query\<close>

text \<open>
  C3, as stated: with zero qubits on either side \<open>overlap\<close> fails with
  \<open>InvalidArgument\<close> and makes no backend contraction. The code has no such check: for
  two states of zero qubits and no records, and a backend that accepts the calls, it
  returns the magnitude 1 of the amplitude and has asked the backend to compute it.
\<close>

theorem overlap_zero_qubits_counterexample:
  "getNumQubits (mk_state 0 [] 16) = 0
   \<and> \<not> fails_with InvalidArgument
         (fst (overlap (accepting_backend 0 (- 1) []) (mk_state 0 [] 16)
                 (TensorNet (mk_state 0 [] 16)) world0))
   \<and> fst (overlap (accepting_backend 0 (- 1) []) (mk_state 0 [] 16)
             (TensorNet (mk_state 0 [] 16)) world0) = Inr 1
   \<and> AccessorCompute []
        \<in> set (trace (snd (overlap (accepting_backend 0 (- 1) []) (mk_state 0 [] 16)
                             (TensorNet (mk_state 0 [] 16)) world0)))"
  by (simp add: overlap_def query_zero_amplitude_def run_defs accepting_backend_def
      mk_state_def world0_def getNumQubits_def Let_def fails_with_def)

text \<open>
  C3, amended. \<open>overlap\<close> has no check of the qubit counts: for no pair of states does
  it fail with an error of the class \<open>InvalidArgument\<close>. When \<open>self\<close> or a network-based
  \<open>other\<close> has zero qubits, it still creates the temporary network over the larger of
  the two counts and asks for the accessor computation, and it returns a value, provided
  the backend accepts every call, the workspace size passes the signed 64-bit
  comparison of line 137 with the size of the scratch pool, and the buffers of the
  non-unitary records of \<open>other\<close> can be copied.
\<close>

theorem overlap_no_qubit_count_check:
  "\<not> fails_with InvalidArgument (fst (overlap be self other w))
   \<and> ((getNumQubits self = 0 \<or> getNumQubits tnOther = 0)
        \<and> (\<forall>w c. accepts be w c)
        \<and> (\<forall>w. sint (worksize be w) \<le> sint (scratchSize (scratchPad self)))
        \<and> (\<forall>op\<in>set (m_tensorOps (m_state tnOther)).
              \<not> isUnitary op \<longrightarrow> readable (devmem w) op)
       \<longrightarrow> (\<exists>r. fst (overlap be self (TensorNet tnOther) w) = Inr r)
          \<and> CreateState (max (getNumQubits self) (getNumQubits tnOther))
               \<in> set (trace (snd (overlap be self (TensorNet tnOther) w)))
          \<and> AccessorCompute (replicate (max (getNumQubits self) (getNumQubits tnOther)) 0)
               \<in> set (trace (snd (overlap be self (TensorNet tnOther) w))))"
proof (intro conjI impI)
  show "\<not> fails_with InvalidArgument (fst (overlap be self other w))"
    using nia_overlap [of be self other] by (simp add: never_invalid_argument_def)
next
  assume h: "(getNumQubits self = 0 \<or> getNumQubits tnOther = 0)
        \<and> (\<forall>w c. accepts be w c)
        \<and> (\<forall>w. sint (worksize be w) \<le> sint (scratchSize (scratchPad self)))
        \<and> (\<forall>op\<in>set (m_tensorOps (m_state tnOther)).
              \<not> isUnitary op \<longrightarrow> readable (devmem w) op)"
  let ?nb = "max (getNumQubits self) (getNumQubits tnOther)"
  from h have a: "\<forall>w c. accepts be w c"
    and b: "\<forall>w. sint (worksize be w) \<le> sint (scratchSize (scratchPad self))"
    and c: "\<forall>op\<in>set (m_tensorOps (m_state tnOther)).
              \<not> isUnitary op \<longrightarrow> readable (devmem w) op"
    by simp_all
  note ov = overlap_accepting [OF a b c, unfolded Let_def]
  show "\<exists>r. fst (overlap be self (TensorNet tnOther) w) = Inr r"
    by (simp add: ov)
  show "CreateState ?nb \<in> set (trace (snd (overlap be self (TensorNet tnOther) w)))"
    by (simp add: ov)
  show "AccessorCompute (replicate ?nb 0)
          \<in> set (trace (snd (overlap be self (TensorNet tnOther) w)))"
    by (simp add: ov)
qed

theorem overlap_no_qubit_count_check_witness:
  "getNumQubits (mk_state 0 [] 16) = 0
   \<and> \<not> fails_with InvalidArgument
         (fst (overlap (accepting_backend 0 1 []) (mk_state 0 [] 16)
                 (TensorNet (mk_state 1 [] 16)) world0))
   \<and> CreateState 1
        \<in> set (trace (snd (overlap (accepting_backend 0 1 []) (mk_state 0 [] 16)
                             (TensorNet (mk_state 1 [] 16)) world0)))
   \<and> AccessorCompute [0]
        \<in> set (trace (snd (overlap (accepting_backend 0 1 []) (mk_state 0 [] 16)
                             (TensorNet (mk_state 1 [] 16)) world0)))"
  using overlap_no_qubit_count_check
          [of "accepting_backend 0 1 []" "mk_state 0 [] 16" "TensorNet (mk_state 1 [] 16)"
              world0 "mk_state 1 [] 16"]
  by (simp add: accepting_backend_def mk_state_def getNumQubits_def)

text \<open>
  C4, as stated: \<open>overlap\<close> builds its query in exactly the steps of copying the records
  of \<open>other\<close>, reversing them and negating \<open>isAdjoint\<close>, creating the temporary network,
  appending the two groups of records, and querying. When \<open>other\<close> holds a non-unitary
  record there are more steps, which lines 46 to 59 take on purpose: here \<open>self\<close> has a
  controlled gate on two qubits and \<open>other\<close> a projector on qubit 0, and the calls of
  \<open>overlap\<close> begin with a copy of the four entries of the projector to the host and a
  copy back, before the network is created.
\<close>

theorem overlap_device_copies_counterexample:
  "trace (snd (overlap (accepting_backend 0 (- 1) []) (mk_state 2 [cnot_op] 16)
                 (TensorNet (mk_state 1 [projector_op] 16)) world0))
     = [CudaMemcpyDeviceToHost 0 4, CudaMemcpyHostToDevice 0 4,
        CreateState 2,
        StateApplyControlledTensorOperator [0] [1] 1 False True,
        StateApplyTensorOperator [0] 0 True False,
        CudaMalloc, CreateAccessor [0, 1], AccessorConfigureNumHyperSamples 8,
        CreateWorkspaceDescriptor, AccessorPrepare 16, WorkspaceGetMemorySize,
        WorkspaceSetMemory 100 0, AccessorCompute [0, 0], CudaMemcpyOverlap, CudaFree,
        DestroyWorkspaceDescriptor, DestroyAccessor, DestroyState]"
  by (simp add: overlap_def query_zero_amplitude_def conjugate_op_def run_defs
      accepting_backend_def mk_state_def projector_op_def cnot_op_def world0_def
      getNumQubits_def apply_call_def transposeInPlace_2 Let_def upt_conv_Cons
      replicate_2)

text \<open>
  C4, amended. For a network-based \<open>other\<close>, when the backend accepts every call, the
  workspace size passes the signed 64-bit comparison of line 137 with the size of the
  scratch pool, and the buffers of the non-unitary records of \<open>other\<close> can be copied,
  \<open>overlap\<close> does exactly this. It conjugates the reversed copy of the records of
  \<open>other\<close>: the result is those records in reverse order with \<open>isAdjoint\<close> negated, and for
  each non-unitary one, in that order, the data is copied to the host, transposed and
  copied back. It then creates a network over \<open>max\<close> of the two qubit counts; appends
  the records of \<open>self\<close> as they are and then the bra-side records, each with its own
  targets, controls, pointer and flags; sets up an accessor that projects all the
  qubits, with 8 hyper samples; attaches the workspace; computes the amplitude at the
  all-zero values; releases the temporaries; and returns the magnitude of the
  amplitude.
\<close>

theorem overlap_builds_query:
  assumes "\<forall>w c. accepts be w c"
    and "\<forall>w. sint (worksize be w) \<le> sint (scratchSize (scratchPad self))"
    and "\<forall>op\<in>set (m_tensorOps (m_state tnOther)).
           \<not> isUnitary op \<longrightarrow> readable (devmem w) op"
  shows
    "(let braOps = map (\<lambda>op. op\<lparr>isAdjoint := \<not> isAdjoint op\<rparr>)
                     (rev (m_tensorOps (m_state tnOther)));
          nb = max (getNumQubits self) (getNumQubits tnOther);
          w1 = w\<lparr>devmem := fold transposed_data (rev (m_tensorOps (m_state tnOther)))
                              (devmem w),
                 trace := trace w @ transpose_calls (rev (m_tensorOps (m_state tnOther)))\<rparr>;
          wp = w1\<lparr>live := WorkspaceDescriptor # Accessor # DeviceScalar
                            # TempQuantumState # live w,
                  trace := trace w1
                    @ CreateState nb
                    # map (\<lambda>op. if controlQubitIds op = []
                                then StateApplyTensorOperator (targetQubitIds op)
                                       (deviceData op) (isAdjoint op) (isUnitary op)
                                else StateApplyControlledTensorOperator
                                       (controlQubitIds op) (targetQubitIds op)
                                       (deviceData op) (isAdjoint op) (isUnitary op))
                        (m_tensorOps (m_state self) @ braOps)
                    @ [CudaMalloc, CreateAccessor (map int [0..<nb]),
                       AccessorConfigureNumHyperSamples 8, CreateWorkspaceDescriptor,
                       AccessorPrepare (scratchSize (scratchPad self)),
                       WorkspaceGetMemorySize]\<rparr>;
          wq = wp\<lparr>trace := trace wp @
                   [WorkspaceSetMemory (d_scratch (scratchPad self)) (worksize be wp)]\<rparr>
      in conjugate_ops be (rev (m_tensorOps (m_state tnOther))) w = (Inr braOps, w1)
         \<and> overlap be self (TensorNet tnOther) w
             = (Inr (complex_of_real (cmod (amplitude be wq))),
                wq\<lparr>d_overlap := amplitude be wq, live := live w,
                   trace := trace wq @
                     [AccessorCompute (replicate nb 0), CudaMemcpyOverlap, CudaFree,
                      DestroyWorkspaceDescriptor, DestroyAccessor, DestroyState]\<rparr>))"
proof -
  have rd: "\<forall>op\<in>set (rev (m_tensorOps (m_state tnOther))).
              \<not> isUnitary op \<longrightarrow> readable (devmem w) op"
    using assms(3) by simp
  note conj = conjugate_ops_accepting [OF assms(1) rd]
  note ov = overlap_accepting [OF assms, unfolded Let_def apply_call_eq]
  show ?thesis
    unfolding Let_def by (rule conjI) (rule conj, rule ov)
qed

theorem overlap_builds_query_witness:
  "fst (overlap (accepting_backend 0 (- 1) []) (mk_state 2 [] 16)
          (TensorNet (mk_state 1 [projector_op] 16)) world0) = Inr 1
   \<and> trace (snd (overlap (accepting_backend 0 (- 1) []) (mk_state 2 [] 16)
                    (TensorNet (mk_state 1 [projector_op] 16)) world0))
     = [CudaMemcpyDeviceToHost 0 4, CudaMemcpyHostToDevice 0 4,
        CreateState 2, StateApplyTensorOperator [0] 0 True False,
        CudaMalloc, CreateAccessor [0, 1], AccessorConfigureNumHyperSamples 8,
        CreateWorkspaceDescriptor, AccessorPrepare 16, WorkspaceGetMemorySize,
        WorkspaceSetMemory 100 0, AccessorCompute [0, 0], CudaMemcpyOverlap, CudaFree,
        DestroyWorkspaceDescriptor, DestroyAccessor, DestroyState]
   \<and> devmem (snd (overlap (accepting_backend 0 (- 1) []) (mk_state 2 [] 16)
                     (TensorNet (mk_state 1 [projector_op] 16)) world0)) 0
     = Some [1, 3, 2, 4]
   \<and> live (snd (overlap (accepting_backend 0 (- 1) []) (mk_state 2 [] 16)
                   (TensorNet (mk_state 1 [projector_op] 16)) world0)) = []"
proof -
  have h: "\<forall>w c. accepts (accepting_backend 0 (- 1) []) w c"
      "\<forall>w. sint (worksize (accepting_backend 0 (- 1) []) w)
             \<le> sint (scratchSize (scratchPad (mk_state 2 [] 16)))"
      "\<forall>op\<in>set (m_tensorOps (m_state (mk_state 1 [projector_op] 16))).
           \<not> isUnitary op \<longrightarrow> readable (devmem world0) op"
    by (simp_all add: accepting_backend_def mk_state_def projector_op_def world0_def
        readable_def)
  show ?thesis
    using overlap_builds_query [OF h]
    by (simp add: Let_def accepting_backend_def mk_state_def projector_op_def world0_def
        getNumQubits_def transposed_data_def transpose_calls_def upt_conv_Cons
        replicate_2)
qed

section \<open>getAmplitude: the two strategies\<close>



text \<open>
  C6. For an assignment of 0s and 1s, one per qubit, on a manager at or below the
  threshold (itself below the 64 bits of the index), with a state vector of
  \<open>2 ^ numQubits\<close> entries in the cache or returned by the backend into an empty cache:
  the index that the fold computes, scanning from the last qubit to the first, is the
  little-endian value \<open>\<Sum> b[i] * 2 ^ i\<close>, and \<open>getAmplitude\<close> returns the entry of the
  cached vector at that index.
\<close>

theorem getAmplitude_little_endian_index:
  assumes "length b = getNumQubits self" and "\<forall>x\<in>set b. x = 0 \<or> x = 1" and "b \<noteq> []"
    and "getNumQubits self \<le> g_max" and "g_max < 64"
    and "length vec = 2 ^ getNumQubits self"
    and "m_contractedStateVec self = vec
         \<or> (m_contractedStateVec self = [] \<and> stateVector be w (m_state self) = Some vec)"
  shows "unat (basis_index b) = (\<Sum>i<length b. nat (b ! i) * 2 ^ i)
     \<and> basis_index b = foldr (\<lambda>bit acc. push_bit 1 acc + word_of_int bit) b 0
     \<and> fst (getAmplitude g_max be self b w) = Inr (vec ! (\<Sum>i<length b. nat (b ! i) * 2 ^ i))
     \<and> m_contractedStateVec (fst (snd (getAmplitude g_max be self b w))) = vec"
proof -
  have ok: "\<not> list_ex (\<lambda>x. x \<noteq> 0 \<and> x \<noteq> 1) b"
    using assms(2) by (auto simp: list_ex_iff)
  have n: "numQubits (m_state self) < 64" and len: "length b = numQubits (m_state self)"
    using assms(1,4,5) by (simp_all add: getNumQubits_def)
  have idx: "unat (basis_index b) = (\<Sum>i<length b. nat (b ! i) * 2 ^ i)"
    using unat_basis_index [OF assms(2)] n len by (simp add: little_endian_def)
  have scan: "basis_index b = foldr (\<lambda>bit acc. push_bit 1 acc + word_of_int bit) b 0"
    by (simp add: basis_index_def foldl_conv_foldr)
  have vec_ne: "vec \<noteq> []"
    using assms(6) by auto
  let ?self' = "self\<lparr>m_contractedStateVec := vec\<rparr>"
  have rd: "read_cached ?self' b = Inr (vec ! little_endian b)"
    using read_cached_ok [of b ?self'] assms(2,6) n len by (simp add: getNumQubits_def)
  have "getAmplitude g_max be self b w = (Inr (vec ! little_endian b), ?self', w)
        \<or> getAmplitude g_max be self b w
            = (Inr (vec ! little_endian b), ?self', logged GetStateVector w)"
  proof (cases "m_contractedStateVec self = vec")
    case True
    then have eq: "?self' = self" by simp
    show ?thesis
      using assms(1,3,4) ok rd [unfolded eq] True vec_ne
      by (simp add: getAmplitude_def getNumQubits_def eq)
  next
    case False
    with assms(7) have "m_contractedStateVec self = []"
        and "stateVector be w (m_state self) = Some vec"
      by simp_all
    then show ?thesis
      using assms(1,3,4) ok rd
      by (simp add: getAmplitude_def getNumQubits_def getStateVector_def)
  qed
  then have "fst (getAmplitude g_max be self b w) = Inr (vec ! little_endian b)"
      and "m_contractedStateVec (fst (snd (getAmplitude g_max be self b w))) = vec"
    by auto
  then show ?thesis
    using idx scan by (simp add: little_endian_def)
qed

theorem getAmplitude_little_endian_index_witness:
  "unat (basis_index [0, 1]) = 2
   \<and> fst (getAmplitude 30 (accepting_backend 0 7 [10, 20, 30, 40]) (mk_state 2 [] 16)
            [0, 1] world0) = Inr 30"
proof -
  have valid: "length [0, 1 :: int] = getNumQubits (mk_state 2 [] 16)"
      "\<forall>x\<in>set [0, 1 :: int]. x = 0 \<or> x = 1" "[0, 1 :: int] \<noteq> []"
      "getNumQubits (mk_state 2 [] 16) \<le> 30" "(30 :: nat) < 64"
      "length [10, 20, 30, 40 :: complex] = 2 ^ getNumQubits (mk_state 2 [] 16)"
      "m_contractedStateVec (mk_state 2 [] 16) = [10, 20, 30, 40]
         \<or> (m_contractedStateVec (mk_state 2 [] 16) = []
             \<and> stateVector (accepting_backend 0 7 [10, 20, 30, 40]) world0
                  (m_state (mk_state 2 [] 16)) = Some [10, 20, 30, 40])"
    by (simp_all add: mk_state_def getNumQubits_def accepting_backend_def)
  have s: "(\<Sum>i<length [0, 1 :: int]. nat ([0, 1 :: int] ! i) * 2 ^ i) = 2"
    by (simp add: lessThan_Suc)
  show ?thesis
    using getAmplitude_little_endian_index [OF valid]
    unfolding s by simp
qed

section \<open>getAmplitude: the rejected assignments\<close>

text \<open>
  C7. \<open>getAmplitude\<close> fails with an error of the class \<open>InvalidArgument\<close> exactly when
  the assignment has a length other than the number of qubits, or holds a value other
  than 0 and 1, or is empty; and when it does, the manager and the world (so the calls
  made to the backend) are what they were.
\<close>

theorem getAmplitude_invalid_argument_iff:
  "(fails_with InvalidArgument (fst (getAmplitude g_max be self b w))
      \<longleftrightarrow> (length b \<noteq> getNumQubits self \<or> (\<exists>x\<in>set b. x \<noteq> 0 \<and> x \<noteq> 1) \<or> b = []))
   \<and> (fails_with InvalidArgument (fst (getAmplitude g_max be self b w))
      \<longrightarrow> snd (getAmplitude g_max be self b w) = (self, w))"
  by (auto simp: getAmplitude_def fails_with_def list_ex_iff getStateVector_def
      getStateVectorProjected_def read_cached_def Let_def
      split: option.splits prod.splits sum.splits if_splits)

theorem getAmplitude_invalid_argument_iff_witness:
  "fails_with InvalidArgument
     (fst (getAmplitude 30 (accepting_backend 0 1 [1, 0]) (mk_state 1 [] 16) [2] world0))
   \<and> snd (getAmplitude 30 (accepting_backend 0 1 [1, 0]) (mk_state 1 [] 16) [2] world0)
       = (mk_state 1 [] 16, world0)
   \<and> \<not> fails_with InvalidArgument
     (fst (getAmplitude 30 (accepting_backend 0 1 [1, 0]) (mk_state 1 [] 16) [1] world0))"
  using getAmplitude_invalid_argument_iff
          [of 30 "accepting_backend 0 1 [1, 0]" "mk_state 1 [] 16" "[2]" world0]
        getAmplitude_invalid_argument_iff
          [of 30 "accepting_backend 0 1 [1, 0]" "mk_state 1 [] 16" "[1]" world0]
  by (simp add: mk_state_def getNumQubits_def)

section \<open>toHost\<close>

text \<open>
  C8. When the network's \<open>getStateVector\<close> returns the \<open>2 ^ numQubits\<close> amplitudes,
  \<open>toHost\<close> fails with an error of the class \<open>DimensionMismatch\<close> exactly when
  \<open>numElements\<close> is not \<open>2 ^ numQubits\<close>; with a buffer of \<open>numElements = 2 ^ numQubits\<close>
  entries it returns the buffer holding those amplitudes. Every call asks the backend
  for the vector, and the result is the same whatever the cache of the manager holds;
  the manager is not written, \<open>toHost\<close> having none to return.
\<close>

theorem toHost_dimension_check:
  assumes "stateVector be w (m_state self) = Some vec"
    and "length vec = 2 ^ getNumQubits self"
  shows "(fails_with DimensionMismatchClass (fst (toHost be self buf numElements w))
            \<longleftrightarrow> numElements \<noteq> 2 ^ getNumQubits self)
     \<and> (numElements = 2 ^ getNumQubits self \<and> length buf = numElements
          \<longrightarrow> fst (toHost be self buf numElements w) = Inr vec)
     \<and> trace (snd (toHost be self buf numElements w)) = trace w @ [GetStateVector]
     \<and> toHost be (self\<lparr>m_contractedStateVec := c\<rparr>) buf numElements w
         = toHost be self buf numElements w"
  using assms
  by (auto simp: toHost_def getStateVector_def bnd_def throw_def ret_def logged_def
      fails_with_def copy_to_client_all)

theorem toHost_dimension_check_witness:
  "fst (toHost (accepting_backend 0 7 [3, 5]) (mk_state 1 [] 16) [0, 0] 2 world0)
     = Inr [3, 5]
   \<and> fails_with DimensionMismatchClass
       (fst (toHost (accepting_backend 0 7 [3, 5]) (mk_state 1 [] 16) [0, 0, 0] 3 world0))"
proof -
  have h: "stateVector (accepting_backend 0 7 [3, 5]) world0 (m_state (mk_state 1 [] 16))
             = Some [3, 5]"
      "length [3, 5 :: complex] = 2 ^ getNumQubits (mk_state 1 [] 16)"
    by (simp_all add: accepting_backend_def mk_state_def getNumQubits_def)
  show ?thesis
    using toHost_dimension_check [OF h, of "[0, 0]" 2]
          toHost_dimension_check [OF h, of "[0, 0, 0]" 3]
    by (simp add: mk_state_def getNumQubits_def)
qed

section \<open>getTensor\<close>

text \<open>
  C9. \<open>getTensor i\<close> fails with an error of the class \<open>OutOfRange\<close> exactly when \<open>i\<close> is
  at least the number of tensors, so also at \<open>i = getNumTensors\<close>; below it, the tensor
  returned carries the pointer of record \<open>i\<close> itself and as extents the value 2
  repeated twice the number of target qubits of that record.
\<close>

theorem getTensor_range_and_shape:
  "(fails_with OutOfRange (getTensor prec self i) \<longleftrightarrow> i \<ge> getNumTensors self)
   \<and> fails_with OutOfRange (getTensor prec self (getNumTensors self))
   \<and> (i < getNumTensors self \<longrightarrow>
        getTensor prec self i =
          Inr \<lparr>data = deviceData (m_tensorOps (m_state self) ! i),
               extents = replicate
                 (2 * length (targetQubitIds (m_tensorOps (m_state self) ! i))) 2,
               fp_precision = prec\<rparr>)"
  by (simp add: getTensor_def fails_with_def Let_def)

theorem getTensor_range_and_shape_witness:
  "0 < getNumTensors (mk_state 1 [projector_op] 16)
   \<and> getTensor fp64 (mk_state 1 [projector_op] 16) 0
       = Inr \<lparr>data = 0, extents = [2, 2], fp_precision = fp64\<rparr>
   \<and> fails_with OutOfRange (getTensor fp64 (mk_state 1 [projector_op] 16) 1)"
  using getTensor_range_and_shape [of fp64 "mk_state 1 [projector_op] 16" 0]
        getTensor_range_and_shape [of fp64 "mk_state 1 [projector_op] 16" 1]
  by (simp add: mk_state_def getNumTensors_def projector_op_def numeral_2_eq_2)

section \<open>getAmplitude on a manager without qubits\<close>

text \<open>
  C10. On a manager with zero qubits the empty assignment passes the check of the
  length and the check of the values, and is then refused as empty; every other
  assignment is refused for its length. So \<open>getAmplitude\<close> returns no value on such a
  manager.
\<close>

theorem getAmplitude_zero_qubits_fails:
  "getNumQubits self = 0 \<Longrightarrow>
     fst (getAmplitude g_max be self [] w) = Inl EmptyBasisState
     \<and> (\<forall>b. \<exists>e. fst (getAmplitude g_max be self b w) = Inl e)"
  by (simp add: getAmplitude_def)

theorem getAmplitude_zero_qubits_fails_witness:
  "getNumQubits (mk_state 0 [] 16) = 0
   \<and> fst (getAmplitude 30 (accepting_backend 0 1 [1]) (mk_state 0 [] 16) [] world0)
       = Inl EmptyBasisState
   \<and> (\<forall>b. \<exists>e. fst (getAmplitude 30 (accepting_backend 0 1 [1]) (mk_state 0 [] 16) b world0)
               = Inl e)"
proof -
  have h: "getNumQubits (mk_state 0 [] 16) = 0"
    by (simp add: mk_state_def getNumQubits_def)
  show ?thesis
    using h getAmplitude_zero_qubits_fails
            [OF h, of 30 "accepting_backend 0 1 [1]" world0]
    by simp
qed

end
